theory Spec2Isabelle
  imports Complex_Main "HOL-Library.AList" "HOL-Library.Sublist" "HOL-Library.Log_Nat"
    "HOL-Library.Code_Target_Nat"
begin

section \<open>JavaScript strings and numbers\<close>

text \<open>
  A JavaScript string is a sequence of UTF-16 code units; a code unit is modelled by its
  number.  \<open>js\<close> turns an ASCII literal into such a sequence.  The character classes
  are those of ECMAScript: \<open>\d\<close> is \<open>[0-9]\<close>, \<open>\w\<close> is \<open>[A-Za-z0-9_]\<close>, \<open>\s\<close> and
  \<open>trim\<close> use WhiteSpace plus LineTerminator, and \<open>.\<close> is everything but a
  LineTerminator.
\<close>

type_synonym jsstring = "nat list"

definition js :: "string \<Rightarrow> jsstring" where
  "js s = map of_char s"

definition is_digit :: "nat \<Rightarrow> bool" where
  "is_digit c = (48 \<le> c \<and> c \<le> 57)"

definition is_word :: "nat \<Rightarrow> bool" where
  "is_word c = (is_digit c \<or> (65 \<le> c \<and> c \<le> 90) \<or> (97 \<le> c \<and> c \<le> 122) \<or> c = 95)"

definition is_lt :: "nat \<Rightarrow> bool" where
  "is_lt c = (c = 10 \<or> c = 13 \<or> c = 8232 \<or> c = 8233)"

definition is_ws :: "nat \<Rightarrow> bool" where
  "is_ws c = ((9 \<le> c \<and> c \<le> 13) \<or> c = 32 \<or> c = 160 \<or> c = 5760 \<or> (8192 \<le> c \<and> c \<le> 8202)
     \<or> c = 8232 \<or> c = 8233 \<or> c = 8239 \<or> c = 8287 \<or> c = 12288 \<or> c = 65279)"

definition trimStart :: "jsstring \<Rightarrow> jsstring" where
  "trimStart s = dropWhile is_ws s"

definition trimEnd :: "jsstring \<Rightarrow> jsstring" where
  "trimEnd s = rev (dropWhile is_ws (rev s))"

definition trim :: "jsstring \<Rightarrow> jsstring" where
  "trim s = trimEnd (trimStart s)"

definition startsWith :: "jsstring \<Rightarrow> jsstring \<Rightarrow> bool" where
  "startsWith s p = (take (length p) s = p)"

fun str_includes :: "jsstring \<Rightarrow> jsstring \<Rightarrow> bool" where
  "str_includes [] p = (p = [])"
| "str_includes (c # cs) p = (startsWith (c # cs) p \<or> str_includes cs p)"

fun indexOf :: "jsstring \<Rightarrow> jsstring \<Rightarrow> nat option" where
  "indexOf [] p = (if p = [] then Some 0 else None)"
| "indexOf (c # cs) p =
     (if startsWith (c # cs) p then Some 0 else map_option Suc (indexOf cs p))"

text \<open>\<open>s.split('\n')\<close>: never empty; the empty string gives one empty line.\<close>

fun split_nl :: "jsstring \<Rightarrow> jsstring list" where
  "split_nl [] = [[]]"
| "split_nl (c # cs) =
     (if c = 10 then [] # split_nl cs
      else (let r = split_nl cs in (c # hd r) # tl r))"

text \<open>
  Numbers.  The values that occur are integers or \<open>NaN\<close>; integers are exact in a double
  below \<open>2^53\<close>, and the model computes on them exactly.  \<open>dec\<close> is the decimal
  rendering of a non-negative integer (template literals, \<open>String(n)\<close>).
\<close>

datatype jsnum = NaN | Num int

fun num_add :: "jsnum \<Rightarrow> jsnum \<Rightarrow> jsnum" where
  "num_add (Num a) (Num b) = Num (a + b)"
| "num_add _ _ = NaN"

fun num_mul :: "jsnum \<Rightarrow> jsnum \<Rightarrow> jsnum" where
  "num_mul (Num a) (Num b) = Num (a * b)"
| "num_mul _ _ = NaN"

function dec :: "nat \<Rightarrow> jsstring" where
  "dec n = (if n < 10 then [48 + n] else dec (n div 10) @ [48 + n mod 10])"
  by pat_completeness auto
termination
  by (relation "measure id") auto

declare dec.simps [simp del]


definition digits_val :: "jsstring \<Rightarrow> nat" where
  "digits_val ds = foldl (\<lambda>a c. 10 * a + (c - 48)) 0 ds"

text \<open>
  \<open>parseInt(s, 10)\<close>: leading white space is skipped, a sign is accepted, the longest run
  of decimal digits is read and whatever follows is ignored; no digit gives \<open>NaN\<close>.
  \<open>parseInt(s)\<close> with no radix does the same on a string of decimal digits.
\<close>

definition parseInt :: "jsstring \<Rightarrow> jsnum" where
  "parseInt s =
     (let t = dropWhile is_ws s;
          neg = (t \<noteq> [] \<and> hd t = 45);
          u = (if t \<noteq> [] \<and> (hd t = 45 \<or> hd t = 43) then tl t else t);
          ds = takeWhile is_digit u
      in if ds = [] then NaN
         else Num ((if neg then - 1 else 1) * int (digits_val ds)))"

section \<open>Durations: convertTimeToSeconds and convertSecondsToTime\<close>

text \<open>
  \<open>timeStr.match(/(\d+)h/)\<close> with the unit as a parameter: the leftmost position at which
  a digit starts a run of digits that is followed by the unit; the capture is that run.
\<close>

fun re_num_unit :: "nat \<Rightarrow> jsstring \<Rightarrow> jsstring option" where
  "re_num_unit u [] = None"
| "re_num_unit u (c # cs) =
     (if is_digit c \<and> (case dropWhile is_digit cs of [] \<Rightarrow> False | d # _ \<Rightarrow> d = u)
      then Some (c # takeWhile is_digit cs)
      else re_num_unit u cs)"

text \<open>The second test of the guard compares with the two-character string of two apostrophes.\<close>

definition convertTimeToSeconds :: "jsstring \<Rightarrow> jsnum" where
  "convertTimeToSeconds timeStr =
     (if timeStr = [] \<or> timeStr = [39, 39] \<or> timeStr = js ''Not started'' then Num 0
      else
        let hoursMatch = re_num_unit 104 timeStr;
            minutesMatch = re_num_unit 109 timeStr;
            secondsMatch = re_num_unit 115 timeStr;
            hours = (case hoursMatch of Some ds \<Rightarrow> parseInt ds | None \<Rightarrow> Num 0);
            minutes = (case minutesMatch of Some ds \<Rightarrow> parseInt ds | None \<Rightarrow> Num 0);
            seconds = (case secondsMatch of Some ds \<Rightarrow> parseInt ds | None \<Rightarrow> Num 0)
        in num_add (num_add (num_mul hours (Num 3600)) (num_mul minutes (Num 60))) seconds)"







section \<open>The status record\<close>

text \<open>
  The parser builds a partial \<open>AgentStatus\<close>: a field that no line sets stays
  \<open>undefined\<close>, which is \<open>None\<close> here.  Only \<open>stage_list\<close> and \<open>current_task\<close> are
  set from the start, and a new stage has only its \<open>index\<close>.
\<close>

record stage =
  index :: jsnum
  title :: "jsstring option"
  reached :: "bool option"
  fail_count :: "jsnum option"
  is_skipped :: "bool option"
  time_cost :: "jsstring option"
  needs_human_check :: "bool option"

record task =
  task_title :: jsstring
  description :: "jsstring list"
  reference_files :: "(jsstring \<times> jsstring) list"
  output_files :: "jsstring list"

datatype current_task = TaskObject task | TaskString jsstring

datatype check_value = CStr jsstring | CNum jsnum | CArr "jsstring list"

type_synonym check_object = "(jsstring \<times> check_value) list"

record check_result =
  check_pass :: "bool option"
  check_info :: "check_object list option"

record agent_status =
  mission :: "jsstring option"
  stage_list :: "stage list"
  process :: "jsstring option"
  current_task :: current_task
  current_stage_index :: "jsnum option"
  current_stage_name :: "jsstring option"
  last_check_result :: "check_result option"

text \<open>
  An object used as a dictionary is the list of its own properties in insertion order.
  \<open>obj[k] = v\<close> replaces the value of an existing key and appends a new one; for the key
  \<open>__proto__\<close> and a value that is no object (the values stored here are strings and
  numbers) the assignment runs the setter of \<open>Object.prototype\<close>, which does nothing.
\<close>

definition obj_set :: "(jsstring \<times> 'v) list \<Rightarrow> jsstring \<Rightarrow> 'v \<Rightarrow> (jsstring \<times> 'v) list" where
  "obj_set obj k v = (if k = js ''__proto__'' then obj else AList.update k v obj)"

text \<open>
  Reading \<open>xs[i]\<close> is \<open>undefined\<close> outside \<open>0 .. length - 1\<close>; calling a method on
  \<open>undefined\<close> throws a \<open>TypeError\<close>.  \<open>null\<close> and \<open>undefined\<close> are different values.
\<close>

datatype js_error = TypeError

datatype 'a maybe = Null | Undefined | Defined 'a

definition array_get :: "'a list \<Rightarrow> nat \<Rightarrow> 'a option" where
  "array_get xs i = (if i < length xs then Some (xs ! i) else None)"


definition array_index :: "'a list \<Rightarrow> jsnum \<Rightarrow> 'a maybe" where
  "array_index xs i =
     (case i of
        NaN \<Rightarrow> Undefined
      | Num k \<Rightarrow> if 0 \<le> k \<and> k < int (length xs) then Defined (xs ! nat k) else Undefined)"

section \<open>The regular expressions of the parser\<close>

text \<open>\<open>/^\s+/\<close>\<close>

definition starts_ws :: "jsstring \<Rightarrow> bool" where
  "starts_ws line = (line \<noteq> [] \<and> is_ws (hd line))"

text \<open>
  \<open>/^\s*-\s+KEY/\<close> for a literal key that starts with no white space: \<open>index:\<close>,
  \<open>name:\<close>, and the empty key for \<open>/^\s*-\s+/\<close>.
\<close>

definition re_item_key :: "jsstring \<Rightarrow> jsstring \<Rightarrow> bool" where
  "re_item_key key line =
     (case dropWhile is_ws line of
        [] \<Rightarrow> False
      | c # r \<Rightarrow> c = 45 \<and> r \<noteq> [] \<and> is_ws (hd r) \<and> startsWith (dropWhile is_ws r) key)"

text \<open>\<open>line.replace(/^\s*-\s+/, '')\<close>\<close>

definition strip_item :: "jsstring \<Rightarrow> jsstring" where
  "strip_item line =
     (case dropWhile is_ws line of
        [] \<Rightarrow> line
      | c # r \<Rightarrow> if c = 45 \<and> r \<noteq> [] \<and> is_ws (hd r) then dropWhile is_ws r else line)"

text \<open>
  \<open>line.match(/index:\s*(\d+)/)\<close>: the leftmost \<open>index:\<close> that is followed, after
  optional white space, by a digit; the capture is the run of digits.
\<close>

fun re_index_num :: "jsstring \<Rightarrow> jsstring option" where
  "re_index_num [] = None"
| "re_index_num (c # cs) =
     (if startsWith (c # cs) (js ''index:'')
         \<and> takeWhile is_digit (dropWhile is_ws (drop 6 (c # cs))) \<noteq> []
      then Some (takeWhile is_digit (dropWhile is_ws (drop 6 (c # cs))))
      else re_index_num cs)"

text \<open>
  \<open>line.match(/^\s+(\w+):\s*(.*)/)\<close>: white space, a word, a colon; the second capture
  starts after the white space that follows the colon and stops before the first line
  terminator (a carriage return, for instance).
\<close>

definition re_property :: "jsstring \<Rightarrow> (jsstring \<times> jsstring) option" where
  "re_property line =
     (let r = dropWhile is_ws line;
          w = takeWhile is_word r;
          rest = dropWhile is_word r
      in if starts_ws line \<and> w \<noteq> [] \<and> rest \<noteq> [] \<and> hd rest = 58
         then Some (w, takeWhile (\<lambda>c. \<not> is_lt c) (dropWhile is_ws (tl rest)))
         else None)"

text \<open>\<open>/^\w+:/\<close>\<close>

definition re_key :: "jsstring \<Rightarrow> bool" where
  "re_key t = (takeWhile is_word t \<noteq> [] \<and> dropWhile is_word t \<noteq> [] \<and> hd (dropWhile is_word t) = 58)"

text \<open>
  \<open>\s*(.+)\<close> at the start of a string, with the backtracking of the greedy \<open>\s*\<close>: white
  space is consumed as long as something is left for \<open>(.+)\<close>, which takes at least one
  character and stops before a line terminator.
\<close>

fun ws_dotplus :: "jsstring \<Rightarrow> jsstring option" where
  "ws_dotplus [] = None"
| "ws_dotplus (c # cs) =
     (if is_ws c then
        (case ws_dotplus cs of
           Some g \<Rightarrow> Some g
         | None \<Rightarrow> if is_lt c then None else Some (takeWhile (\<lambda>x. \<not> is_lt x) (c # cs)))
      else Some (takeWhile (\<lambda>x. \<not> is_lt x) (c # cs)))"

text \<open>\<open>line.match(/name:\s*(.+)/)\<close>\<close>

fun re_name :: "jsstring \<Rightarrow> jsstring option" where
  "re_name [] = None"
| "re_name (c # cs) =
     (if startsWith (c # cs) (js ''name:'') then
        (case ws_dotplus (drop 5 (c # cs)) of Some g \<Rightarrow> Some g | None \<Rightarrow> re_name cs)
      else re_name cs)"

text \<open>\<open>line.match(/^\s*-\s+(.+)/)\<close>\<close>

definition re_item_text :: "jsstring \<Rightarrow> jsstring option" where
  "re_item_text line =
     (case dropWhile is_ws line of
        [] \<Rightarrow> None
      | c # r \<Rightarrow> if c = 45 \<and> r \<noteq> [] \<and> is_ws (hd r) then ws_dotplus (tl r) else None)"

text \<open>
  \<open>process.match(/(\d+)\/(\d+)/)\<close>: the leftmost run of digits that is followed by a
  slash and a digit.
\<close>

fun re_process :: "jsstring \<Rightarrow> (jsstring \<times> jsstring) option" where
  "re_process [] = None"
| "re_process (c # cs) =
     (let rest = dropWhile is_digit cs
      in if is_digit c \<and> rest \<noteq> [] \<and> hd rest = 47 \<and> takeWhile is_digit (tl rest) \<noteq> []
         then Some (c # takeWhile is_digit cs, takeWhile is_digit (tl rest))
         else re_process cs)"

section \<open>parseLastCheckResult\<close>

record lcr_state =
  lcr_check_pass :: "bool option"
  insideCheckInfo :: bool
  checkInfoArray :: "check_object list"

text \<open>
  \<open>if (!currentObj.last_msg) currentObj.last_msg = []; currentObj.last_msg.push(item)\<close>:
  a value of \<open>last_msg\<close> that is truthy and no array has no \<open>push\<close>, and the call throws.
\<close>

definition push_last_msg :: "check_object \<Rightarrow> jsstring \<Rightarrow> js_error + check_object" where
  "push_last_msg obj item =
     (case map_of obj (js ''last_msg'') of
        None \<Rightarrow> Inr (obj_set obj (js ''last_msg'') (CArr [item]))
      | Some (CArr xs) \<Rightarrow> Inr (obj_set obj (js ''last_msg'') (CArr (xs @ [item])))
      | Some (CStr t) \<Rightarrow>
          if t = [] then Inr (obj_set obj (js ''last_msg'') (CArr [item])) else Inl TypeError
      | Some (CNum n) \<Rightarrow>
          if n = NaN \<or> n = Num 0 then Inr (obj_set obj (js ''last_msg'') (CArr [item]))
          else Inl TypeError)"

text \<open>The body of \<open>if (insideCheckInfo)\<close>.\<close>

definition check_info_line :: "jsstring \<Rightarrow> lcr_state \<Rightarrow> js_error + lcr_state" where
  "check_info_line line s =
     (if re_item_key (js ''name:'') line then
        (case re_name line of
           Some g \<Rightarrow>
             Inr (s\<lparr>checkInfoArray := checkInfoArray s @ [[(js ''name'', CStr (trim g))]]\<rparr>)
         | None \<Rightarrow> Inr s)
      else if checkInfoArray s \<noteq> [] then
        (let currentObj = last (checkInfoArray s) in
         case re_property line of
           Some (property, raw) \<Rightarrow>
             (let value = trim raw;
                  v = (if property = js ''last_msg'' \<or> property = js ''description'' then CArr []
                       else if property = js ''count_pass'' \<or> property = js ''count_fail''
                               \<or> property = js ''count_check''
                       then CNum (parseInt value)
                       else CStr value)
              in Inr (s\<lparr>checkInfoArray :=
                          butlast (checkInfoArray s) @ [obj_set currentObj property v]\<rparr>))
         | None \<Rightarrow>
             if (re_item_key [] line \<and> str_includes line (js ''last_msg:''))
                \<or> str_includes line (js ''description:'')
             then
               (case re_item_text line of
                  Some g \<Rightarrow>
                    (case push_last_msg currentObj (trim g) of
                       Inl e \<Rightarrow> Inl e
                     | Inr obj \<Rightarrow>
                         Inr (s\<lparr>checkInfoArray := butlast (checkInfoArray s) @ [obj]\<rparr>))
                | None \<Rightarrow> Inr s)
             else Inr s)
      else Inr s)"

fun parseLastCheckResult_loop :: "lcr_state \<Rightarrow> jsstring list \<Rightarrow> js_error + lcr_state" where
  "parseLastCheckResult_loop s [] = Inr s"
| "parseLastCheckResult_loop s (line # rest) =
     (let trimmedLine = trim line in
      if trimmedLine = [] then parseLastCheckResult_loop s rest
      else if \<not> starts_ws line \<and> \<not> startsWith trimmedLine (js ''- '')
              \<and> str_includes trimmedLine (js '':'')
      then Inr s
      else if trimmedLine = js ''check_info:''
      then parseLastCheckResult_loop (s\<lparr>insideCheckInfo := True\<rparr>) rest
      else if insideCheckInfo s then
        (case check_info_line line s of
           Inl e \<Rightarrow> Inl e
         | Inr s' \<Rightarrow> parseLastCheckResult_loop s' rest)
      else if startsWith trimmedLine (js ''check_pass:'')
      then parseLastCheckResult_loop
             (s\<lparr>lcr_check_pass := Some (trim (drop 11 trimmedLine) = js ''true'')\<rparr>) rest
      else parseLastCheckResult_loop s rest)"

definition parseLastCheckResult :: "jsstring list \<Rightarrow> js_error + check_result" where
  "parseLastCheckResult lines =
     (case parseLastCheckResult_loop
             \<lparr>lcr_check_pass = None, insideCheckInfo = False, checkInfoArray = []\<rparr> lines of
        Inl e \<Rightarrow> Inl e
      | Inr s \<Rightarrow>
          Inr \<lparr>check_pass = lcr_check_pass s,
               check_info = (if checkInfoArray s \<noteq> [] then Some (checkInfoArray s) else None)\<rparr>)"

section \<open>parseStatusResponse\<close>

datatype sect = StageList | CurrentTask

datatype subsect = Description | ReferenceFiles | OutputFiles

record pstate =
  result :: agent_status
  currentSection :: "sect option"
  currentSubsection :: "subsect option"
  currentStage :: "stage option"

definition initial_status :: agent_status where
  "initial_status =
     \<lparr>mission = None, stage_list = [], process = None,
      current_task = TaskObject \<lparr>task_title = [], description = [], reference_files = [],
                                 output_files = []\<rparr>,
      current_stage_index = None, current_stage_name = None, last_check_result = None\<rparr>"

definition initial_pstate :: pstate where
  "initial_pstate =
     \<lparr>result = initial_status, currentSection = None, currentSubsection = None,
      currentStage = None\<rparr>"

text \<open>\<open>currentStage = { index: -1 }\<close>\<close>

definition new_stage :: stage where
  "new_stage =
     \<lparr>index = Num (- 1), title = None, reached = None, fail_count = None, is_skipped = None,
      time_cost = None, needs_human_check = None\<rparr>"

text \<open>The \<open>switch (property)\<close> of the stage properties.\<close>

definition stage_property :: "stage \<Rightarrow> jsstring \<Rightarrow> jsstring \<Rightarrow> stage" where
  "stage_property cs property value =
     (if property = js ''title'' then cs\<lparr>title := Some value\<rparr>
      else if property = js ''reached'' then cs\<lparr>reached := Some (value = js ''true'')\<rparr>
      else if property = js ''fail_count'' then cs\<lparr>fail_count := Some (parseInt value)\<rparr>
      else if property = js ''is_skipped'' then cs\<lparr>is_skipped := Some (value = js ''true'')\<rparr>
      else if property = js ''time_cost'' then cs\<lparr>time_cost := Some value\<rparr>
      else if property = js ''needs_human_check''
      then cs\<lparr>needs_human_check := Some (value = js ''true'')\<rparr>
      else cs)"

text \<open>The branch \<open>currentSection === 'stage_list'\<close>.\<close>

definition stage_list_line :: "jsstring \<Rightarrow> jsstring \<Rightarrow> pstate \<Rightarrow> pstate" where
  "stage_list_line line trimmedLine st =
     (if re_item_key (js ''index:'') line then
        (let res = (case currentStage st of
                      Some cs \<Rightarrow> (result st)\<lparr>stage_list := stage_list (result st) @ [cs]\<rparr>
                    | None \<Rightarrow> result st);
             stage = (case re_index_num line of
                        Some ds \<Rightarrow> new_stage\<lparr>index := parseInt ds\<rparr>
                      | None \<Rightarrow> new_stage)
         in st\<lparr>result := res, currentStage := Some stage\<rparr>)
      else
        (case currentStage st of
           None \<Rightarrow> st
         | Some cs \<Rightarrow>
             (case re_property line of
                Some (property, raw) \<Rightarrow>
                  st\<lparr>currentStage := Some (stage_property cs property (trim raw))\<rparr>
              | None \<Rightarrow>
                  if re_key trimmedLine
                  then st\<lparr>currentSection := None, currentSubsection := None\<rparr>
                  else st)))"

text \<open>
  The guard \<open>result.current_task && typeof result.current_task === 'object'\<close> around every
  update of the task.
\<close>

definition with_task :: "(task \<Rightarrow> task) \<Rightarrow> pstate \<Rightarrow> pstate" where
  "with_task f st =
     (case current_task (result st) of
        TaskObject t \<Rightarrow> st\<lparr>result := (result st)\<lparr>current_task := TaskObject (f t)\<rparr>\<rparr>
      | TaskString _ \<Rightarrow> st)"

definition task_truthy :: "current_task \<Rightarrow> bool" where
  "task_truthy t = (case t of TaskObject _ \<Rightarrow> True | TaskString v \<Rightarrow> v \<noteq> [])"

text \<open>The branch \<open>currentSection === 'current_task'\<close>.\<close>

definition current_task_line :: "jsstring \<Rightarrow> jsstring \<Rightarrow> pstate \<Rightarrow> pstate" where
  "current_task_line line trimmedLine st =
     (if startsWith trimmedLine (js ''title:'')
      then with_task (\<lambda>t. t\<lparr>task_title := trim (drop 6 trimmedLine)\<rparr>) st
      else if trimmedLine = js ''description:''
      then st\<lparr>currentSubsection := Some Description\<rparr>
      else if currentSubsection st = Some Description \<and> re_item_key [] line then
        (let descItem = trim (strip_item line)
         in if descItem \<noteq> []
            then with_task (\<lambda>t. t\<lparr>description := description t @ [descItem]\<rparr>) st
            else st)
      else if trimmedLine = js ''reference_files:''
      then st\<lparr>currentSubsection := Some ReferenceFiles\<rparr>
      else if currentSubsection st = Some ReferenceFiles \<and> re_item_key [] line then
        (let fileEntry = trim (strip_item line)
         in case indexOf fileEntry (js '': '') of
              Some colonIndex \<Rightarrow>
                with_task (\<lambda>t. t\<lparr>reference_files :=
                    obj_set (reference_files t) (take colonIndex fileEntry)
                      (drop (colonIndex + 2) fileEntry)\<rparr>) st
            | None \<Rightarrow>
                with_task (\<lambda>t. t\<lparr>reference_files :=
                    obj_set (reference_files t) fileEntry (js ''Not Read'')\<rparr>) st)
      else if trimmedLine = js ''output_files:''
      then st\<lparr>currentSubsection := Some OutputFiles\<rparr>
      else if currentSubsection st = Some OutputFiles \<and> re_item_key [] line then
        (let file = trim (strip_item line)
         in if file \<noteq> []
            then with_task (\<lambda>t. t\<lparr>output_files := output_files t @ [file]\<rparr>) st
            else st)
      else if re_key trimmedLine
      then st\<lparr>currentSection := None, currentSubsection := None\<rparr>
      else st)"

text \<open>
  The inner loop that follows \<open>parseLastCheckResult\<close>: \<open>j\<close> runs from \<open>i + 1\<close>; at the
  first line that is not blank and does not start with white space the loop sets
  \<open>i = j - 1\<close> and stops; at the last line it sets \<open>i = j\<close>.  The function returns the
  final value of \<open>i\<close>.
\<close>

function skip_to_top :: "jsstring list \<Rightarrow> nat \<Rightarrow> nat \<Rightarrow> js_error + nat" where
  "skip_to_top lines i j =
     (if j < length lines then
        (case array_get lines j of
           None \<Rightarrow> Inl TypeError
         | Some lj \<Rightarrow>
             if trim lj \<noteq> [] \<and> \<not> starts_ws lj then Inr (j - 1)
             else skip_to_top lines (if j = length lines - 1 then j else i) (Suc j))
      else Inr i)"
  by pat_completeness auto
termination
  by (relation "measure (\<lambda>(lines, i, j). length lines - j)") auto

declare skip_to_top.simps [simp del]

text \<open>
  The body of the main loop for the line at position \<open>i\<close>; it returns the value of \<open>i\<close>
  at the end of the iteration and the new state.
\<close>

definition process_line :: "jsstring list \<Rightarrow> nat \<Rightarrow> jsstring \<Rightarrow> pstate \<Rightarrow> js_error + nat \<times> pstate" where
  "process_line lines i line st =
     (let trimmedLine = trim line in
      if trimmedLine = [] then Inr (i, st)
      else if startsWith trimmedLine (js ''mission:'') then
        Inr (i, st\<lparr>result := (result st)\<lparr>mission := Some (trim (drop 8 trimmedLine))\<rparr>,
                   currentSection := None\<rparr>)
      else if startsWith trimmedLine (js ''process:'') then
        Inr (i, st\<lparr>result := (result st)\<lparr>process := Some (trim (drop 8 trimmedLine))\<rparr>,
                   currentSection := None\<rparr>)
      else if startsWith trimmedLine (js ''current_stage_index:'') then
        (let value = trim (drop 20 trimmedLine);
             n = (if value \<noteq> [] \<and> parseInt value \<noteq> NaN then parseInt value else Num (- 1))
         in Inr (i, st\<lparr>result := (result st)\<lparr>current_stage_index := Some n\<rparr>,
                      currentSection := None\<rparr>))
      else if startsWith trimmedLine (js ''current_stage_name:'') then
        Inr (i, st\<lparr>result := (result st)\<lparr>current_stage_name := Some (trim (drop 19 trimmedLine))\<rparr>,
                   currentSection := None\<rparr>)
      else if startsWith trimmedLine (js ''last_check_result:'') then
        (case parseLastCheckResult (drop i lines) of
           Inl e \<Rightarrow> Inl e
         | Inr lcr \<Rightarrow>
             (case skip_to_top lines i (Suc i) of
                Inl e \<Rightarrow> Inl e
              | Inr i' \<Rightarrow>
                  Inr (i', st\<lparr>result := (result st)\<lparr>last_check_result := Some lcr\<rparr>,
                              currentSection := None\<rparr>)))
      else if trimmedLine = js ''stage_list:'' then
        Inr (i, st\<lparr>currentSection := Some StageList\<rparr>)
      else if startsWith trimmedLine (js ''current_task:'') then
        (let currentTaskValue = trim (drop 13 trimmedLine)
         in if currentTaskValue \<noteq> [] then
              (if task_truthy (current_task (result st)) then
                 Inr (i, st\<lparr>result := (result st)\<lparr>current_task :=
                        TaskObject \<lparr>task_title = currentTaskValue,
                          description = [js ''Mission completed or no active task''],
                          reference_files = [], output_files = []\<rparr>\<rparr>\<rparr>)
               else Inr (i, st))
            else Inr (i, st\<lparr>currentSection := Some CurrentTask\<rparr>))
      else if currentSection st = Some StageList then
        Inr (i, stage_list_line line trimmedLine st)
      else if currentSection st = Some CurrentTask then
        Inr (i, current_task_line line trimmedLine st)
      else Inr (i, st))"

text \<open>
  The main loop.  The body may move \<open>i\<close> forward, never backward, so the loop ends.
\<close>

lemma skip_to_top_ge: "skip_to_top lines i j = Inr i' \<Longrightarrow> i < j \<Longrightarrow> i \<le> i'"
proof (induction lines i j rule: skip_to_top.induct)
  case (1 lines i j)
  show ?case
  proof (cases "j < length lines")
    case False
    with "1.prems" show ?thesis by (simp add: skip_to_top.simps)
  next
    case True
    then have get: "array_get lines j = Some (lines ! j)" by (simp add: array_get_def)
    show ?thesis
    proof (cases "trim (lines ! j) \<noteq> [] \<and> \<not> starts_ws (lines ! j)")
      case stop: True
      with True get "1.prems" have "i' = j - 1"
        by (subst (asm) skip_to_top.simps) simp
      with "1.prems"(2) show ?thesis by simp
    next
      case go: False
      let ?i = "if j = length lines - 1 then j else i"
      from True get go "1.prems"(1) have r: "skip_to_top lines ?i (Suc j) = Inr i'"
        by (subst (asm) skip_to_top.simps) (simp split: if_splits)
      from "1.prems"(2) have "?i < Suc j" by simp
      with "1.IH" [OF True get go r] have "?i \<le> i'" by simp
      with "1.prems"(2) show ?thesis by (simp split: if_splits)
    qed
  qed
qed

lemma process_line_ge: "process_line lines i line st = Inr (i', st') \<Longrightarrow> i \<le> i'"
  unfolding process_line_def Let_def
  by (auto split: if_splits sum.splits dest: skip_to_top_ge)

function parse_loop :: "jsstring list \<Rightarrow> nat \<Rightarrow> pstate \<Rightarrow> js_error + pstate" where
  "parse_loop lines i st =
     (if i < length lines then
        (case array_get lines i of
           None \<Rightarrow> Inl TypeError
         | Some line \<Rightarrow>
             (case process_line lines i line st of
                Inl e \<Rightarrow> Inl e
              | Inr (i', st') \<Rightarrow> parse_loop lines (Suc i') st'))
      else Inr st)"
  by pat_completeness auto
termination
proof (relation "measure (\<lambda>(lines, i, st). length lines - i)")
  show "wf (measure (\<lambda>(lines, i, st). length lines - i))" by simp
next
  fix lines :: "jsstring list" and i st line r i' st'
  assume "i < length lines" and "process_line lines i line st = Inr r" and "(i', st') = r"
  then have "i \<le> i'" by (auto dest: process_line_ge)
  with \<open>i < length lines\<close>
  show "((lines, Suc i', st'), lines, i, st) \<in> measure (\<lambda>(lines, i, st). length lines - i)"
    by simp
qed

declare parse_loop.simps [simp del]

text \<open>After the loop the stage under construction, if any, is appended.\<close>

definition parseStatusResponse :: "jsstring \<Rightarrow> js_error + agent_status" where
  "parseStatusResponse statusText =
     (case parse_loop (split_nl statusText) 0 initial_pstate of
        Inl e \<Rightarrow> Inl e
      | Inr st \<Rightarrow>
          Inr (case currentStage st of
                 Some cs \<Rightarrow> (result st)\<lparr>stage_list := stage_list (result st) @ [cs]\<rparr>
               | None \<Rightarrow> result st))"

section \<open>Progress and elapsed time\<close>

text \<open>
  Doubles.  \<open>fl\<close> rounds a rational number to the nearest binary64 value, ties to even
  (53 significant bits; the exponent range is not modelled, the quotients and products
  below stay far inside it).  Division and multiplication of doubles are the exact
  operation followed by \<open>fl\<close>; \<open>Math.round\<close> rounds half up, exactly.
\<close>

definition fl :: "rat \<Rightarrow> rat" where
  "fl q =
     (if q = 0 then 0
      else
        let a = \<bar>q\<bar>;
            e0 = bitlen (fst (quotient_of a)) - bitlen (snd (quotient_of a));
            e = (if 2 powi e0 \<le> a then e0 else e0 - 1);
            m = a * 2 powi (52 - e);
            f = \<lfloor>m\<rfloor>;
            r = (if m - of_int f < 1 / 2 then f
                 else if 1 / 2 < m - of_int f then f + 1
                 else if even f then f else f + 1)
        in sgn q * of_int r * 2 powi (e - 52))"

definition Math_round :: "rat \<Rightarrow> int" where
  "Math_round x = \<lfloor>x + 1 / 2\<rfloor>"

fun num_lt :: "jsnum \<Rightarrow> jsnum \<Rightarrow> bool" where
  "num_lt (Num a) (Num b) = (a < b)"
| "num_lt _ _ = False"

fun num_ge :: "jsnum \<Rightarrow> jsnum \<Rightarrow> bool" where
  "num_ge (Num a) (Num b) = (b \<le> a)"
| "num_ge _ _ = False"

text \<open>\<open>stage?.reached === true || stage?.is_skipped === true\<close>\<close>

definition stage_done :: "stage \<Rightarrow> bool" where
  "stage_done x = (reached x = Some True \<or> is_skipped x = Some True)"

definition reached_or_skipped :: "stage maybe \<Rightarrow> bool" where
  "reached_or_skipped s = (case s of Defined x \<Rightarrow> stage_done x | _ \<Rightarrow> False)"

text \<open>
  The test on \<open>status.process\<close>: the string holds \<open>a/b\<close> with \<open>a >= b\<close> and \<open>a > 0\<close>.
\<close>

definition process_complete :: "agent_status \<Rightarrow> bool" where
  "process_complete s =
     (case (case process s of None \<Rightarrow> None | Some p \<Rightarrow> re_process p) of
        None \<Rightarrow> False
      | Some (a, b) \<Rightarrow> num_ge (parseInt a) (parseInt b) \<and> num_lt (Num 0) (parseInt a))"

definition isStageCompleted :: "agent_status option \<Rightarrow> jsnum \<Rightarrow> bool" where
  "isStageCompleted status stageIndex =
     (case status of
        None \<Rightarrow> False
      | Some s \<Rightarrow>
          if process_complete s
          then reached_or_skipped (array_index (stage_list s) stageIndex)
          else
            (case current_stage_index s of
               None \<Rightarrow> reached_or_skipped (array_index (stage_list s) stageIndex)
             | Some c \<Rightarrow>
                 if c \<noteq> Num (- 1) then num_lt stageIndex c
                 else reached_or_skipped (array_index (stage_list s) stageIndex)))"

definition calculateProgress :: "agent_status option \<Rightarrow> int" where
  "calculateProgress status =
     (case status of
        None \<Rightarrow> 0
      | Some s \<Rightarrow>
          if stage_list s = [] then 0
          else
            let totalStages = length (stage_list s);
                completedStages =
                  length (filter (\<lambda>stage. isStageCompleted status (index stage)) (stage_list s))
            in Math_round (fl (fl (of_nat completedStages / of_nat totalStages) * 100)))"




section \<open>extractTextContent\<close>

text \<open>
  The values a tool call returns are JSON values.  An object is the list of its own
  properties, each key once.  A number is kept as the numeral that denotes it: its
  double is not computed.  Of a number the functions below need whether it is zero (its
  mantissa has no digit but 0; a numeral that underflows to zero is not recognised), and
  its rendering, for which the numeral itself stands (JavaScript prints an integer below
  \<open>2^53\<close>, written with no fraction and no exponent, as it is written; other numerals go
  through its shortest-digits algorithm, which is not modelled).
\<close>

datatype json =
  JNull | JBool bool | JNum jsstring | JStr jsstring | JArr "json list"
  | JObj "(jsstring \<times> json) list"

datatype 'a outcome = Ok 'a | Fail | NoFuel

subsection \<open>JSON.parse\<close>

text \<open>
  The JSON grammar of ECMAScript: white space is tab, line feed, carriage return and
  space; a string holds any code unit from \<open>0x20\<close> on but the quote and the backslash,
  and the escapes \<open>\" \\ \/ \b \f \n \r \t \uXXXX\<close>; a number is
  \<open>-? (0 | [1-9][0-9]*) (. [0-9]+)? ([eE] [+-]? [0-9]+)?\<close>.
\<close>

definition json_ws :: "nat \<Rightarrow> bool" where
  "json_ws c = (c = 9 \<or> c = 10 \<or> c = 13 \<or> c = 32)"

definition skip_ws :: "jsstring \<Rightarrow> jsstring" where
  "skip_ws s = dropWhile json_ws s"

definition hex_value :: "nat \<Rightarrow> nat option" where
  "hex_value c =
     (if 48 \<le> c \<and> c \<le> 57 then Some (c - 48)
      else if 97 \<le> c \<and> c \<le> 102 then Some (c - 87)
      else if 65 \<le> c \<and> c \<le> 70 then Some (c - 55)
      else None)"

definition unescape :: "nat \<Rightarrow> nat option" where
  "unescape e =
     (if e = 34 \<or> e = 92 \<or> e = 47 then Some e
      else if e = 98 then Some 8
      else if e = 102 then Some 12
      else if e = 110 then Some 10
      else if e = 114 then Some 13
      else if e = 116 then Some 9
      else None)"

definition cons_char :: "nat \<Rightarrow> (jsstring \<times> jsstring) option \<Rightarrow> (jsstring \<times> jsstring) option" where
  "cons_char c r = (case r of None \<Rightarrow> None | Some (t, rest) \<Rightarrow> Some (c # t, rest))"

text \<open>The four hexadecimal digits of a \<open>\u\<close> escape.\<close>

definition hex4 :: "jsstring \<Rightarrow> nat option" where
  "hex4 hs =
     (case map hex_value hs of
        [Some a, Some b, Some c, Some d] \<Rightarrow> Some (4096 * a + 256 * b + 16 * c + d)
      | _ \<Rightarrow> None)"

text \<open>
  The characters of a string after its opening quote: the string they denote and what
  follows the closing quote.
\<close>

fun string_chars :: "jsstring \<Rightarrow> (jsstring \<times> jsstring) option" where
  "string_chars [] = None"
| "string_chars [c] = (if c = 34 then Some ([], []) else None)"
| "string_chars (c # e # cs) =
     (if c = 34 then Some ([], e # cs)
      else if c = 92 then
        (if e = 117 then
           (case hex4 (take 4 cs) of
              Some u \<Rightarrow> cons_char u (string_chars (drop 4 cs))
            | None \<Rightarrow> None)
         else
           (case unescape e of
              Some u \<Rightarrow> cons_char u (string_chars cs)
            | None \<Rightarrow> None))
      else if c < 32 then None
      else cons_char c (string_chars (e # cs)))"

text \<open>
  The numeral at the start of a text, by the lengths of its parts: the sign, the integer
  part (a single 0, or digits), the fraction (a point and at least one digit) and the
  exponent (\<open>e\<close> or \<open>E\<close>, a sign or none, at least one digit).
\<close>

definition sign_length :: "jsstring \<Rightarrow> nat" where
  "sign_length s = (if s \<noteq> [] \<and> hd s = 45 then 1 else 0)"

definition int_length :: "jsstring \<Rightarrow> nat" where
  "int_length s = (if s \<noteq> [] \<and> hd s = 48 then 1 else length (takeWhile is_digit s))"

definition frac_length :: "jsstring \<Rightarrow> nat option" where
  "frac_length s =
     (if s \<noteq> [] \<and> hd s = 46 then
        (if takeWhile is_digit (tl s) = [] then None
         else Some (Suc (length (takeWhile is_digit (tl s)))))
      else Some 0)"

definition exp_length :: "jsstring \<Rightarrow> nat option" where
  "exp_length s =
     (if s \<noteq> [] \<and> (hd s = 101 \<or> hd s = 69) then
        (let g = (if tl s \<noteq> [] \<and> (hd (tl s) = 43 \<or> hd (tl s) = 45) then 1 else 0);
             ds = takeWhile is_digit (drop g (tl s))
         in if ds = [] then None else Some (Suc (g + length ds)))
      else Some 0)"

definition lex_number :: "jsstring \<Rightarrow> (jsstring \<times> jsstring) option" where
  "lex_number s =
     (let a = sign_length s;
          b = int_length (drop a s)
      in if b = 0 then None
         else
           (case frac_length (drop (a + b) s) of
              None \<Rightarrow> None
            | Some c \<Rightarrow>
                (case exp_length (drop (a + b + c) s) of
                   None \<Rightarrow> None
                 | Some d \<Rightarrow> Some (take (a + b + c + d) s, drop (a + b + c + d) s))))"

text \<open>
  The recursive descent, with fuel: every call takes one unit.  \<open>parse_value\<close> reads a
  value at the start of the text; \<open>parse_elements\<close> and \<open>parse_members\<close> read what follows
  an opening bracket or brace that is not closed at once.  A later member with the key of
  an earlier one replaces its value.
\<close>

fun parse_value :: "nat \<Rightarrow> jsstring \<Rightarrow> (json \<times> jsstring) outcome"
  and parse_elements :: "nat \<Rightarrow> json list \<Rightarrow> jsstring \<Rightarrow> (json \<times> jsstring) outcome"
  and parse_members :: "nat \<Rightarrow> (jsstring \<times> json) list \<Rightarrow> jsstring \<Rightarrow> (json \<times> jsstring) outcome"
where
  "parse_value 0 s = NoFuel"
| "parse_value (Suc n) s =
     (case s of
        [] \<Rightarrow> Fail
      | c # cs \<Rightarrow>
          if c = 123 then
            (case skip_ws cs of
               [] \<Rightarrow> Fail
             | d # ds \<Rightarrow> if d = 125 then Ok (JObj [], ds) else parse_members n [] (d # ds))
          else if c = 91 then
            (case skip_ws cs of
               [] \<Rightarrow> Fail
             | d # ds \<Rightarrow> if d = 93 then Ok (JArr [], ds) else parse_elements n [] (d # ds))
          else if c = 34 then
            (case string_chars cs of None \<Rightarrow> Fail | Some (t, rest) \<Rightarrow> Ok (JStr t, rest))
          else if startsWith s (js ''true'') then Ok (JBool True, drop 4 s)
          else if startsWith s (js ''false'') then Ok (JBool False, drop 5 s)
          else if startsWith s (js ''null'') then Ok (JNull, drop 4 s)
          else
            (case lex_number s of None \<Rightarrow> Fail | Some (lexeme, rest) \<Rightarrow> Ok (JNum lexeme, rest)))"
| "parse_elements 0 acc s = NoFuel"
| "parse_elements (Suc n) acc s =
     (case parse_value n s of
        Ok (v, rest) \<Rightarrow>
          (case skip_ws rest of
             [] \<Rightarrow> Fail
           | c # cs \<Rightarrow>
               if c = 44 then parse_elements n (acc @ [v]) (skip_ws cs)
               else if c = 93 then Ok (JArr (acc @ [v]), cs)
               else Fail)
      | Fail \<Rightarrow> Fail
      | NoFuel \<Rightarrow> NoFuel)"
| "parse_members 0 acc s = NoFuel"
| "parse_members (Suc n) acc s =
     (case s of
        [] \<Rightarrow> Fail
      | q # qs \<Rightarrow>
          if q \<noteq> 34 then Fail
          else
            (case string_chars qs of
               None \<Rightarrow> Fail
             | Some (k, rest) \<Rightarrow>
                 (case skip_ws rest of
                    [] \<Rightarrow> Fail
                  | c # cs \<Rightarrow>
                      if c \<noteq> 58 then Fail
                      else
                        (case parse_value n (skip_ws cs) of
                           Ok (v, rest') \<Rightarrow>
                             (case skip_ws rest' of
                                [] \<Rightarrow> Fail
                              | d # ds \<Rightarrow>
                                  if d = 44 then parse_members n (AList.update k v acc) (skip_ws ds)
                                  else if d = 125 then Ok (JObj (AList.update k v acc), ds)
                                  else Fail)
                         | Fail \<Rightarrow> Fail
                         | NoFuel \<Rightarrow> NoFuel))))"

text \<open>
  \<open>JSON.parse(text)\<close>: one value between optional white space; \<open>None\<close> is the
  \<open>SyntaxError\<close>.  The fuel, twice the length of the text and two, is never used up.
\<close>

definition JSON_parse :: "jsstring \<Rightarrow> json option" where
  "JSON_parse text =
     (case parse_value (2 * length text + 2) (skip_ws text) of
        Ok (v, rest) \<Rightarrow> if skip_ws rest = [] then Some v else None
      | Fail \<Rightarrow> None
      | NoFuel \<Rightarrow> None)"

subsection \<open>Truthiness, property access, conversion to a string\<close>

definition num_nonzero :: "jsstring \<Rightarrow> bool" where
  "num_nonzero lexeme =
     (\<exists>c \<in> set (takeWhile (\<lambda>c. c \<noteq> 101 \<and> c \<noteq> 69) lexeme). 49 \<le> c \<and> c \<le> 57)"

definition is_truthy :: "json \<Rightarrow> bool" where
  "is_truthy v =
     (case v of
        JNull \<Rightarrow> False
      | JBool b \<Rightarrow> b
      | JNum lexeme \<Rightarrow> num_nonzero lexeme
      | JStr t \<Rightarrow> t \<noteq> []
      | JArr _ \<Rightarrow> True
      | JObj _ \<Rightarrow> True)"

text \<open>
  \<open>v.k\<close> for the keys read here (\<open>content\<close>, \<open>type\<close>, \<open>text\<close>, \<open>error\<close>), which only an
  object can have; \<open>None\<close> is \<open>undefined\<close>.  On \<open>null\<close> the access throws.
\<close>

definition get_prop :: "json \<Rightarrow> jsstring \<Rightarrow> json option" where
  "get_prop v k = (case v of JObj kvs \<Rightarrow> map_of kvs k | _ \<Rightarrow> None)"

fun join_comma :: "jsstring list \<Rightarrow> jsstring" where
  "join_comma [] = []"
| "join_comma [x] = x"
| "join_comma (x # y # ys) = x @ 44 # join_comma (y # ys)"

text \<open>The conversion of a template literal; in an array \<open>null\<close> is the empty string.\<close>

fun to_string :: "json \<Rightarrow> jsstring" where
  "to_string JNull = js ''null''"
| "to_string (JBool b) = (if b then js ''true'' else js ''false'')"
| "to_string (JNum lexeme) = lexeme"
| "to_string (JStr t) = t"
| "to_string (JArr xs) = join_comma (map (\<lambda>x. if x = JNull then [] else to_string x) xs)"
| "to_string (JObj kvs) = js ''[object Object]''"

subsection \<open>JSON.stringify(data, null, 2)\<close>

text \<open>
  A string is quoted with the escapes \<open>\b \t \n \f \r \" \\\<close>; any other code unit
  below \<open>0x20\<close> and a surrogate that is not part of a pair are written \<open>\uXXXX\<close> with
  lower-case digits.
\<close>

definition hex_digit :: "nat \<Rightarrow> nat" where
  "hex_digit d = (if d < 10 then 48 + d else 87 + d)"

definition quote_unit :: "nat \<Rightarrow> jsstring" where
  "quote_unit c =
     (if c = 8 then [92, 98]
      else if c = 9 then [92, 116]
      else if c = 10 then [92, 110]
      else if c = 12 then [92, 102]
      else if c = 13 then [92, 114]
      else if c = 34 then [92, 34]
      else if c = 92 then [92, 92]
      else if c < 32 \<or> (55296 \<le> c \<and> c \<le> 57343) then
        [92, 117, hex_digit (c div 4096 mod 16), hex_digit (c div 256 mod 16),
         hex_digit (c div 16 mod 16), hex_digit (c mod 16)]
      else [c])"

fun quote_chars :: "jsstring \<Rightarrow> jsstring" where
  "quote_chars [] = []"
| "quote_chars [c] = quote_unit c"
| "quote_chars (c # d # cs) =
     (if 55296 \<le> c \<and> c \<le> 56319 \<and> 56320 \<le> d \<and> d \<le> 57343 then c # d # quote_chars cs
      else quote_unit c @ quote_chars (d # cs))"

definition quote :: "jsstring \<Rightarrow> jsstring" where
  "quote t = 34 # quote_chars t @ [34]"

fun join_lines :: "jsstring list \<Rightarrow> jsstring" where
  "join_lines [] = []"
| "join_lines [x] = x"
| "join_lines (x # y # ys) = x @ 44 # 10 # join_lines (y # ys)"

text \<open>The first argument is the indentation of the enclosing line, in spaces.\<close>

fun stringify :: "nat \<Rightarrow> json \<Rightarrow> jsstring" where
  "stringify ind JNull = js ''null''"
| "stringify ind (JBool b) = (if b then js ''true'' else js ''false'')"
| "stringify ind (JNum lexeme) = lexeme"
| "stringify ind (JStr t) = quote t"
| "stringify ind (JArr xs) =
     (if xs = [] then js ''[]''
      else [91, 10]
           @ join_lines (map (\<lambda>x. replicate (ind + 2) 32 @ stringify (ind + 2) x) xs)
           @ [10] @ replicate ind 32 @ [93])"
| "stringify ind (JObj kvs) =
     (if kvs = [] then js ''{}''
      else [123, 10]
           @ join_lines (map (\<lambda>kv. replicate (ind + 2) 32 @ quote (fst kv) @ [58, 32]
                                      @ stringify (ind + 2) (snd kv)) kvs)
           @ [10] @ replicate ind 32 @ [125])"

subsection \<open>The function\<close>

text \<open>
  The results are JavaScript values: the text of the item is returned as it is, also
  when it is no string.  \<open>JSON.parse\<close> is applied to the whole text, inside the inner
  \<open>try\<close>: its \<open>SyntaxError\<close>, and the \<open>TypeError\<close> of reading \<open>error\<close> from \<open>null\<close>, end in
  the \<open>catch\<close> that returns the text.
\<close>

definition is_text_item :: "json \<Rightarrow> bool" where
  "is_text_item item = (is_truthy item \<and> get_prop item (js ''type'') = Some (JStr (js ''text'')))"

definition error_marker :: jsstring where
  "error_marker = [34] @ js ''error'' @ [34]"

definition extractTextContent :: "json \<Rightarrow> json" where
  "extractTextContent data =
     (case (if is_truthy data then get_prop data (js ''content'') else None) of
        Some (JArr content) \<Rightarrow>
          (case find is_text_item content of
             None \<Rightarrow> JStr (stringify 0 data)
           | Some textItem \<Rightarrow>
               (case get_prop textItem (js ''text'') of
                  None \<Rightarrow> JStr (stringify 0 data)
                | Some txt \<Rightarrow>
                    if \<not> is_truthy txt then JStr (stringify 0 data)
                    else
                      (case txt of
                         JStr t \<Rightarrow>
                           if str_includes t error_marker then
                             (case JSON_parse t of
                                None \<Rightarrow> JStr t
                              | Some JNull \<Rightarrow> JStr t
                              | Some parsed \<Rightarrow>
                                  (case get_prop parsed (js ''error'') of
                                     None \<Rightarrow> JStr t
                                   | Some e \<Rightarrow>
                                       if is_truthy e then JStr (js ''error: '' @ to_string e)
                                       else JStr t))
                           else JStr t
                       | _ \<Rightarrow> txt)))
      | _ \<Rightarrow> JStr (stringify 0 data))"

text \<open>The tool-call result \<open>{content: [{type: "text", text: t}]}\<close>.\<close>

definition text_result :: "jsstring \<Rightarrow> json" where
  "text_result t = JObj [(js ''content'', JArr [JObj [(js ''type'', JStr (js ''text'')), (js ''text'', JStr t)]])]"

section \<open>Notions used in the statements\<close>




text \<open>The sample status text of the specification.\<close>

definition sample_text :: jsstring where
  "sample_text =
     js ''mission: Adder verification'' @ [10] @
     js ''stage_list:'' @ [10] @
     js ''- index: 0'' @ [10] @
     js ''  title: plan'' @ [10] @
     js ''  reached: true'' @ [10] @
     js ''  fail_count: 0'' @ [10] @
     js ''  is_skipped: false'' @ [10] @
     js ''  time_cost: 1m 5s'' @ [10] @
     js ''  needs_human_check: false'' @ [10] @
     js ''- index: 1'' @ [10] @
     js ''  title: implement'' @ [10] @
     js ''  reached: false'' @ [10] @
     js ''  fail_count: 2'' @ [10] @
     js ''  is_skipped: false'' @ [10] @
     js ''  time_cost: '' @ [39, 39] @ [10] @
     js ''  needs_human_check: true'' @ [10] @
     js ''process: 1/2'' @ [10] @
     js ''current_stage_index: 1'' @ [10] @
     js ''current_stage_name: implement''"

text \<open>The text \<open>{"error":"bad arg"}\<close> of the specification.\<close>

definition bad_arg :: jsstring where
  "bad_arg = [123, 34] @ js ''error'' @ [34, 58, 34] @ js ''bad arg'' @ [34, 125]"

section \<open>Properties of the duration functions\<close>

lemma dec_nonempty [simp]: "dec n \<noteq> []"
  by (subst dec.simps) simp

lemma dec_all_digits: "c \<in> set (dec n) \<Longrightarrow> is_digit c"
proof (induction n arbitrary: c rule: dec.induct)
  case (1 n)
  show ?case
  proof (cases "n < 10")
    case True
    with "1.prems" show ?thesis
      by (subst (asm) dec.simps) (simp add: is_digit_def)
  next
    case False
    from "1.prems" have "c \<in> set (dec (n div 10)) \<or> c = 48 + n mod 10"
      using False by (subst (asm) dec.simps) auto
    then show ?thesis
    proof
      assume "c \<in> set (dec (n div 10))"
      with "1.IH" False show ?thesis by simp
    next
      assume "c = 48 + n mod 10"
      moreover have "n mod 10 < 10" by simp
      ultimately show ?thesis unfolding is_digit_def by linarith
    qed
  qed
qed

lemma digits_val_snoc: "digits_val (ds @ [c]) = 10 * digits_val ds + (c - 48)"
  by (simp add: digits_val_def)

lemma digits_val_dec [simp]: "digits_val (dec n) = n"
proof (induction n rule: dec.induct)
  case (1 n)
  show ?case
  proof (cases "n < 10")
    case True
    then show ?thesis by (subst dec.simps) (simp add: digits_val_def)
  next
    case False
    with 1 have "digits_val (dec (n div 10)) = n div 10" by simp
    with False show ?thesis
      by (subst dec.simps) (simp add: digits_val_snoc)
  qed
qed

lemma hd_dec_digit: "is_digit (hd (dec n))"
  using dec_all_digits [of "hd (dec n)" n] by simp

lemma last_dec_digit: "is_digit (last (dec n))"
  using dec_all_digits [of "last (dec n)" n] by simp

lemma digit_not_ws: "is_digit c \<Longrightarrow> \<not> is_ws c"
  by (auto simp: is_digit_def is_ws_def)

lemma dropWhile_hd_id: "xs \<noteq> [] \<Longrightarrow> \<not> P (hd xs) \<Longrightarrow> dropWhile P xs = xs"
  by (cases xs) auto

lemma takeWhile_all: "(\<And>c. c \<in> set xs \<Longrightarrow> P c) \<Longrightarrow> takeWhile P xs = xs"
  by (induction xs) auto

lemma parseInt_dec [simp]: "parseInt (dec n) = Num (int n)"
proof -
  have d: "is_digit (hd (dec n))" by (rule hd_dec_digit)
  then have a: "dropWhile is_ws (dec n) = dec n"
    by (intro dropWhile_hd_id) (auto dest: digit_not_ws)
  from d have b: "hd (dec n) \<noteq> 45" "hd (dec n) \<noteq> 43"
    by (auto simp: is_digit_def)
  have c: "takeWhile is_digit (dec n) = dec n"
    by (rule takeWhile_all) (rule dec_all_digits)
  show ?thesis
    by (simp add: parseInt_def a b c Let_def)
qed



lemma re_num_unit_space [simp]: "re_num_unit u (32 # rest) = re_num_unit u rest"
  by (simp add: is_digit_def)




lemma units_not_digit [simp]: "\<not> is_digit 104" "\<not> is_digit 109" "\<not> is_digit 115"
  by (simp_all add: is_digit_def)

lemma dec_append_ne: "\<not> is_digit (hd ys) \<Longrightarrow> dec n @ xs \<noteq> ys"
  by (metis hd_append2 dec_nonempty hd_dec_digit)

lemma dec_ne_consts [simp]:
  "dec n @ xs \<noteq> [39, 39]" "dec n @ xs \<noteq> js ''Not started''"
  by (rule dec_append_ne, simp add: is_digit_def js_def)+


lemma trimEnd_Nil [simp]: "trimEnd [] = []"
  by (simp add: trimEnd_def)



lemma trimEnd_append_keep:
  assumes "ys \<noteq> []" "\<not> is_ws (last ys)"
  shows "trimEnd (ys @ xs) = ys @ trimEnd xs"
proof (cases "\<forall>x\<in>set xs. is_ws x")
  case True
  then have "dropWhile is_ws (rev xs @ rev ys) = dropWhile is_ws (rev ys)"
    by (subst dropWhile_append2) auto
  also from assms have "\<dots> = rev ys"
    by (intro dropWhile_hd_id) (simp_all add: hd_rev)
  finally have "trimEnd (ys @ xs) = ys" by (simp add: trimEnd_def)
  moreover from True have "trimEnd xs = []" by (simp add: trimEnd_def)
  ultimately show ?thesis by simp
next
  case False
  then have "dropWhile is_ws (rev xs @ rev ys) = dropWhile is_ws (rev xs) @ rev ys"
    by (auto simp: dropWhile_append1)
  then show ?thesis by (simp add: trimEnd_def)
qed

lemma trimEnd_dec [simp]: "trimEnd (dec n @ xs) = dec n @ trimEnd xs"
  by (rule trimEnd_append_keep) (simp_all add: last_dec_digit digit_not_ws)

lemma trimStart_dec [simp]: "trimStart (dec n @ xs) = dec n @ xs"
  unfolding trimStart_def
  by (rule dropWhile_hd_id) (simp_all add: hd_append hd_dec_digit digit_not_ws)


lemma ws_consts [simp]: "is_ws 32" "\<not> is_ws 104" "\<not> is_ws 109" "\<not> is_ws 115"
  by (simp_all add: is_ws_def)












section \<open>The parser returns for every input\<close>




lemma js_inj: "js a = js b \<longleftrightarrow> a = b"
  unfolding js_def by (simp add: inj_map_eq_map [OF inj_of_char] )


lemma key_neq [simp]:
  "js ''last_msg'' \<noteq> js ''__proto__''" "js ''name'' \<noteq> js ''last_msg''"
  "js ''last_msg'' \<noteq> js ''name''"
  by (simp_all add: js_inj)












definition emitted :: "pstate \<Rightarrow> stage list" where
  "emitted st = stage_list (result st) @ (case currentStage st of None \<Rightarrow> [] | Some cs \<Rightarrow> [cs])"

lemma index_stage_property [simp]: "index (stage_property cs p v) = index cs"
  by (simp add: stage_property_def)


lemma emitted_with_task [simp]: "emitted (with_task f st) = emitted st"
  by (simp add: with_task_def emitted_def split: current_task.splits)









definition is_object :: "current_task \<Rightarrow> bool" where
  "is_object t = (case t of TaskObject _ \<Rightarrow> True | TaskString _ \<Rightarrow> False)"

lemma is_object_TaskObject [simp]: "is_object (TaskObject t)"
  by (simp add: is_object_def)







section \<open>Single lines\<close>






lemma length_consts [simp]: "length (js ''current_task:'') = 13" "length (js ''current_stage_index:'') = 20"
  by (simp_all add: js_def)









section \<open>The progress percentage\<close>







section \<open>The parser on whole inputs and on single lines\<close>



text \<open>C5.  The sample of the specification.\<close>

theorem sample_status:
  "(case parseStatusResponse sample_text of
      Inl e \<Rightarrow> False
    | Inr r \<Rightarrow>
        length (stage_list r) = 2
        \<and> map_option convertTimeToSeconds (time_cost (stage_list r ! 0)) = Some (Num 65)
        \<and> fail_count (stage_list r ! 1) = Some (Num 2)
        \<and> needs_human_check (stage_list r ! 1) = Some True
        \<and> calculateProgress (Some r) = 50)"
  by code_simp


















section \<open>JSON.parse decides every text\<close>

lemma cons_char_Some:
  "cons_char c r = Some (t, rest) \<longleftrightarrow> (\<exists>t'. r = Some (t', rest) \<and> t = c # t')"
  by (auto simp: cons_char_def split: option.splits)

lemma string_chars_shorter: "string_chars s = Some (t, rest) \<Longrightarrow> length rest < length s"
proof (induction "length s" arbitrary: s t rule: less_induct)
  case less
  have IH: "length rest < length u" if "length u < length s" "string_chars u = Some (t', rest)" for u t'
    using less.hyps that by blast
  show ?case
  proof (cases s rule: string_chars.cases)
    case 1
    with less.prems show ?thesis by simp
  next
    case (2 c)
    with less.prems show ?thesis by (simp split: if_splits)
  next
    case (3 c e cs)
    with less.prems consider "rest = e # cs"
      | t' where "string_chars (drop 4 cs) = Some (t', rest)"
      | t' where "string_chars cs = Some (t', rest)"
      | t' where "string_chars (e # cs) = Some (t', rest)"
      by (auto simp: cons_char_Some split: if_splits option.splits)
    then show ?thesis
    proof cases
      case 1
      with 3 show ?thesis by simp
    next
      case 2
      from IH [OF _ 2] 3 have "length rest < length (drop 4 cs)" by simp
      with 3 show ?thesis by simp
    next
      case 3
      from IH [OF _ 3] \<open>s = c # e # cs\<close> show ?thesis by simp
    next
      case 4
      from IH [OF _ 4] \<open>s = c # e # cs\<close> show ?thesis by simp
    qed
  qed
qed

lemma skip_ws_length: "length (skip_ws s) \<le> length s"
  by (simp add: skip_ws_def length_dropWhile_le)



lemma lex_number_shorter:
  assumes "lex_number s = Some (l, rest)"
  shows "length rest < length s"
proof -
  define a where "a = sign_length s"
  define b where "b = int_length (drop a s)"
  from assms have b: "b \<noteq> 0"
    unfolding lex_number_def Let_def a_def [symmetric] b_def [symmetric]
    by (auto split: if_splits)
  from assms b obtain k where rest: "rest = drop (a + b + k) s"
    unfolding lex_number_def Let_def a_def [symmetric] b_def [symmetric]
    by (auto split: option.splits simp: add.assoc)
  from b have "drop a s \<noteq> []"
    by (auto simp: b_def int_length_def)
  then have "s \<noteq> []" by auto
  with b show ?thesis unfolding rest by simp
qed

definition fine :: "(json \<times> jsstring) outcome \<Rightarrow> jsstring \<Rightarrow> bool" where
  "fine r s = (r \<noteq> NoFuel \<and> (\<forall>v rest. r = Ok (v, rest) \<longrightarrow> length rest < length s))"

lemma fineI: "r \<noteq> NoFuel \<Longrightarrow> (\<And>v rest. r = Ok (v, rest) \<Longrightarrow> length rest < length s) \<Longrightarrow> fine r s"
  by (simp add: fine_def)

lemma fine_mono: "fine r u \<Longrightarrow> length u \<le> length s \<Longrightarrow> fine r s"
  by (auto simp: fine_def)

lemma fine_Fail [simp]: "fine Fail s"
  by (simp add: fine_def)

lemma fine_Ok [simp]: "fine (Ok (v, rest)) s \<longleftrightarrow> length rest < length s"
  by (simp add: fine_def)

lemma fuel_suffices:
  "(2 * length s < n \<longrightarrow> fine (parse_value n s) s)
   \<and> (2 * length s + 1 < n \<longrightarrow> fine (parse_elements n acc s) s)
   \<and> (2 * length s + 1 < n \<longrightarrow> fine (parse_members n kvs s) s)"
proof (induction n arbitrary: s acc kvs)
  case 0
  then show ?case by simp
next
  case (Suc n)
  have val: "fine (parse_value n u) u" if "2 * length u < n" for u
    using Suc [of u] that by simp
  have els: "fine (parse_elements n acc' u) u" if "2 * length u + 1 < n" for u acc'
    using Suc [of u acc'] that by simp
  have mem: "fine (parse_members n kvs' u) u" if "2 * length u + 1 < n" for u kvs'
    using Suc [of u _ kvs'] that by simp
  show ?case
  proof (intro conjI impI)
    assume n: "2 * length s < Suc n"
    show "fine (parse_value (Suc n) s) s"
    proof (cases s)
      case Nil
      then show ?thesis by simp
    next
      case (Cons c cs)
      have sk: "length (skip_ws cs) \<le> length cs" by (rule skip_ws_length)
      consider (obj) "c = 123" | (arr) "c = 91" "c \<noteq> 123" | (str) "c = 34" "c \<noteq> 123" "c \<noteq> 91"
        | (other) "c \<noteq> 123" "c \<noteq> 91" "c \<noteq> 34" by blast
      then show ?thesis
      proof cases
        case obj
        show ?thesis
        proof (cases "skip_ws cs")
          case Nil
          with obj Cons show ?thesis by simp
        next
          case (Cons d ds)
          from sk n Cons \<open>s = c # cs\<close> have "fine (parse_members n [] (d # ds)) (d # ds)"
            by (intro mem) simp
          then have "fine (parse_members n [] (d # ds)) s"
            using sk Cons \<open>s = c # cs\<close> by (elim fine_mono) simp
          with obj Cons \<open>s = c # cs\<close> sk show ?thesis by simp
        qed
      next
        case arr
        show ?thesis
        proof (cases "skip_ws cs")
          case Nil
          with arr Cons show ?thesis by simp
        next
          case (Cons d ds)
          from sk n Cons \<open>s = c # cs\<close> have "fine (parse_elements n [] (d # ds)) (d # ds)"
            by (intro els) simp
          then have "fine (parse_elements n [] (d # ds)) s"
            using sk Cons \<open>s = c # cs\<close> by (elim fine_mono) simp
          with arr Cons \<open>s = c # cs\<close> sk show ?thesis by simp
        qed
      next
        case str
        with Cons show ?thesis
          by (auto split: option.splits dest: string_chars_shorter)
      next
        case other
        with Cons show ?thesis
          by (auto split: option.splits dest: lex_number_shorter)
      qed
    qed
  next
    assume n: "2 * length s + 1 < Suc n"
    then have "fine (parse_value n s) s" by (intro val) simp
    show "fine (parse_elements (Suc n) acc s) s"
    proof (cases "parse_value n s")
      case (Ok p)
      obtain v rest where p: "p = (v, rest)" by (cases p)
      with Ok \<open>fine (parse_value n s) s\<close> have r: "length rest < length s" by simp
      have sk: "length (skip_ws rest) \<le> length rest" by (rule skip_ws_length)
      show ?thesis
      proof (cases "skip_ws rest")
        case Nil
        with Ok p show ?thesis by simp
      next
        case (Cons c cs)
        have sk2: "length (skip_ws cs) \<le> length cs" by (rule skip_ws_length)
        from sk sk2 r Cons n have "fine (parse_elements n (acc @ [v]) (skip_ws cs)) (skip_ws cs)"
          by (intro els) simp
        then have "fine (parse_elements n (acc @ [v]) (skip_ws cs)) s"
          using sk sk2 r Cons by (elim fine_mono) simp
        with Ok p Cons sk r show ?thesis by simp
      qed
    next
      case Fail
      then show ?thesis by simp
    next
      case NoFuel
      with \<open>fine (parse_value n s) s\<close> show ?thesis by (simp add: fine_def)
    qed
  next
    assume n: "2 * length s + 1 < Suc n"
    show "fine (parse_members (Suc n) kvs s) s"
    proof (cases s)
      case Nil
      then show ?thesis by simp
    next
      case (Cons q qs)
      show ?thesis
      proof (cases "q = 34 \<and> string_chars qs \<noteq> None")
        case False
        with Cons show ?thesis by (auto split: option.splits)
      next
        case True
        then obtain k rest where k: "string_chars qs = Some (k, rest)" by auto
        then have r: "length rest < length qs" by (rule string_chars_shorter)
        have sk: "length (skip_ws rest) \<le> length rest" by (rule skip_ws_length)
        show ?thesis
        proof (cases "skip_ws rest")
          case Nil
          with Cons True k show ?thesis by simp
        next
          case c: (Cons c cs)
          have sk2: "length (skip_ws cs) \<le> length cs" by (rule skip_ws_length)
          from sk sk2 r c n Cons have v: "fine (parse_value n (skip_ws cs)) (skip_ws cs)"
            by (intro val) simp
          show ?thesis
          proof (cases "parse_value n (skip_ws cs)")
            case (Ok p)
            obtain v' rest' where p: "p = (v', rest')" by (cases p)
            with Ok v have r': "length rest' < length (skip_ws cs)" by simp
            have sk3: "length (skip_ws rest') \<le> length rest'" by (rule skip_ws_length)
            show ?thesis
            proof (cases "skip_ws rest'")
              case Nil
              with Cons True k c Ok p show ?thesis by simp
            next
              case d: (Cons d ds)
              have sk4: "length (skip_ws ds) \<le> length ds" by (rule skip_ws_length)
              from sk sk2 sk3 sk4 r r' c d n Cons
              have "fine (parse_members n (AList.update k v' kvs) (skip_ws ds)) (skip_ws ds)"
                by (intro mem) simp
              then have "fine (parse_members n (AList.update k v' kvs) (skip_ws ds)) s"
                using sk sk2 sk3 sk4 r r' c d Cons by (elim fine_mono) simp
              with Cons True k c Ok p d sk sk2 sk3 r r' show ?thesis by simp
            qed
          next
            case Fail
            with Cons True k c show ?thesis by simp
          next
            case NoFuel
            with v show ?thesis by (simp add: fine_def)
          qed
        qed
      qed
    qed
  qed
qed

lemma JSON_parse_fuel:
  "parse_value (2 * length t + 2) (skip_ws t) \<noteq> NoFuel"
proof -
  have "2 * length (skip_ws t) < 2 * length t + 2"
    using skip_ws_length [of t] by simp
  with fuel_suffices [of "skip_ws t" "2 * length t + 2"] show ?thesis
    by (simp add: fine_def)
qed

section \<open>The error envelope\<close>

text \<open>
  C8, as stated, fails: an envelope that is only a part of the text is not detected.  The
  text \<open>failed: {"error":"bad arg"}\<close> contains the marker and, from its ninth character
  on, an object with the key \<open>error\<close>; the whole text is no JSON, and it is returned as
  it is.
\<close>

theorem error_envelope_counterexample:
  "str_includes (js ''failed: '' @ bad_arg) error_marker
   \<and> JSON_parse (drop 8 (js ''failed: '' @ bad_arg)) = Some (JObj [(js ''error'', JStr (js ''bad arg''))])
   \<and> extractTextContent (text_result (js ''failed: '' @ bad_arg)) = JStr (js ''failed: '' @ bad_arg)
   \<and> JStr (js ''failed: '' @ bad_arg) \<noteq> JStr (js ''error: bad arg'')"
  by code_simp

text \<open>
  C8, amended.  Let the result hold a content list whose first text item has the string
  \<open>t\<close> as text.  If \<open>t\<close> contains the marker \<open>"error"\<close> and is, as a whole, the JSON text
  of an object whose member \<open>error\<close> is a non-empty string \<open>m\<close>, the function returns
  \<open>error: m\<close>.  If \<open>t\<close> is not empty and is no JSON text as a whole, or does not contain
  the marker, it is returned unchanged; nothing is thrown.  \<open>JSON.parse\<close> decides for
  every text: the fuel of the model is never used up.  The input of the specification
  gives \<open>error: bad arg\<close>.
\<close>

theorem error_envelope:
  assumes "get_prop data (js ''content'') = Some (JArr items)"
    and "find is_text_item items = Some item"
    and "get_prop item (js ''text'') = Some (JStr t)"
  shows "(str_includes t error_marker \<and> JSON_parse t = Some (JObj kvs)
           \<and> map_of kvs (js ''error'') = Some (JStr m) \<and> m \<noteq> []
          \<longrightarrow> extractTextContent data = JStr (js ''error: '' @ m))
     \<and> (t \<noteq> [] \<and> JSON_parse t = None \<longrightarrow> extractTextContent data = JStr t)
     \<and> (t \<noteq> [] \<and> \<not> str_includes t error_marker \<longrightarrow> extractTextContent data = JStr t)
     \<and> parse_value (2 * length t + 2) (skip_ws t) \<noteq> NoFuel
     \<and> extractTextContent (text_result bad_arg) = JStr (js ''error: bad arg'')"
proof (intro conjI impI)
  from assms(1) have obj: "is_truthy data"
    by (cases data) (simp_all add: get_prop_def is_truthy_def)
  {
    assume a: "str_includes t error_marker \<and> JSON_parse t = Some (JObj kvs)
           \<and> map_of kvs (js ''error'') = Some (JStr m) \<and> m \<noteq> []"
    then have "t \<noteq> []" by (cases t) (auto simp: error_marker_def startsWith_def)
    with a obj assms show "extractTextContent data = JStr (js ''error: '' @ m)"
      by (simp add: extractTextContent_def is_truthy_def get_prop_def)
  }
  {
    assume "t \<noteq> [] \<and> JSON_parse t = None"
    with obj assms show "extractTextContent data = JStr t"
      by (simp add: extractTextContent_def is_truthy_def)
  }
  {
    assume "t \<noteq> [] \<and> \<not> str_includes t error_marker"
    with obj assms show "extractTextContent data = JStr t"
      by (simp add: extractTextContent_def is_truthy_def)
  }
  show "parse_value (2 * length t + 2) (skip_ws t) \<noteq> NoFuel"
    by (rule JSON_parse_fuel)
  show "extractTextContent (text_result bad_arg) = JStr (js ''error: bad arg'')"
    by code_simp
qed

theorem error_envelope_witness:
  "get_prop (text_result bad_arg) (js ''content'')
     = Some (JArr [JObj [(js ''type'', JStr (js ''text'')), (js ''text'', JStr bad_arg)]])
   \<and> JSON_parse bad_arg = Some (JObj [(js ''error'', JStr (js ''bad arg''))])
   \<and> extractTextContent (text_result bad_arg) = JStr (js ''error: bad arg'')
   \<and> JSON_parse (js ''{not json'') = None
   \<and> extractTextContent (text_result (js ''{not json'')) = JStr (js ''{not json'')"
proof -
  let ?item = "\<lambda>t. JObj [(js ''type'', JStr (js ''text'')), (js ''text'', JStr t)]"
  have h1: "get_prop (text_result t) (js ''content'') = Some (JArr [?item t])" for t
    by (simp add: text_result_def get_prop_def)
  have ti: "is_text_item (?item t)" for t
    by (simp add: is_text_item_def is_truthy_def get_prop_def js_def)
  have h2: "find is_text_item [?item t] = Some (?item t)" for t
    using ti by simp
  have h3: "get_prop (?item t) (js ''text'') = Some (JStr t)" for t
    by (simp add: get_prop_def js_def)
  have p: "JSON_parse bad_arg = Some (JObj [(js ''error'', JStr (js ''bad arg''))])"
    and i: "str_includes bad_arg error_marker"
    and l: "map_of [(js ''error'', JStr (js ''bad arg''))] (js ''error'') = Some (JStr (js ''bad arg''))"
    and n: "js ''bad arg'' \<noteq> []"
    and q: "JSON_parse (js ''{not json'') = None" and o: "js ''{not json'' \<noteq> []"
    by code_simp+
  from error_envelope [OF h1 h2 h3, of bad_arg "[(js ''error'', JStr (js ''bad arg''))]" "js ''bad arg''"]
    i p l n
  have a: "extractTextContent (text_result bad_arg) = JStr (js ''error: bad arg'')"
    by blast
  from error_envelope [OF h1 h2 h3, of "js ''{not json''"] q o
  have b: "extractTextContent (text_result (js ''{not json'')) = JStr (js ''{not json'')"
    by blast
  from h1 p a q b show ?thesis by (intro conjI)
qed

end
